theory Spec2Isabelle
  imports Main "HOL-Library.Word"
begin

section \<open>Bytes and strings\<close>

text \<open>
  A Go \<^verbatim>\<open>string\<close> is a sequence of bytes and \<^verbatim>\<open>len\<close> counts bytes; it is modelled as a
  \<^typ>\<open>char list\<close>, whose elements are 8-bit characters.
\<close>

definition byte :: "char \<Rightarrow> nat" where
  "byte c = of_char c"

definition between :: "char \<Rightarrow> char \<Rightarrow> char \<Rightarrow> bool" where
  "between lo hi c = (byte lo \<le> byte c \<and> byte c \<le> byte hi)"

definition is_digit :: "char \<Rightarrow> bool" where
  "is_digit c = between (CHR ''0'') (CHR ''9'') c"

definition digit_val :: "char \<Rightarrow> nat" where
  "digit_val c = byte c - byte (CHR ''0'')"

subsection \<open>Regular expressions (package regexp)\<close>

text \<open>
  The three patterns of the program use only the anchors \<^verbatim>\<open>^\<close> and \<^verbatim>\<open>$\<close>, character classes over
  ASCII ranges, a fixed repetition \<^verbatim>\<open>{4}\<close> (written out with \<^const>\<open>replicate\<close>) and one starred
  class. \<^verbatim>\<open>MatchString\<close> reports whether the text contains a match starting at any
  offset; \<^verbatim>\<open>^\<close> holds only at offset 0 and \<^verbatim>\<open>$\<close> only at the end of the text. The classes are
  ASCII, so matching bytes and matching UTF-8 runes agree.
\<close>

datatype re_atom = Bol | Eol | Cls "(char \<times> char) list" | StarCls "(char \<times> char) list"

definition in_class :: "(char \<times> char) list \<Rightarrow> char \<Rightarrow> bool" where
  "in_class rs c = list_ex (\<lambda>(lo, hi). between lo hi c) rs"

fun match_here :: "re_atom list \<Rightarrow> bool \<Rightarrow> string \<Rightarrow> bool" where
  "match_here [] b s = True"
| "match_here (Bol # as) b s = (b \<and> match_here as b s)"
| "match_here (Eol # as) b s = (s = [] \<and> match_here as b s)"
| "match_here (Cls rs # as) b s =
     (case s of [] \<Rightarrow> False | c # t \<Rightarrow> in_class rs c \<and> match_here as False t)"
| "match_here (StarCls rs # as) b s =
     (match_here as b s \<or>
      (case s of [] \<Rightarrow> False | c # t \<Rightarrow> in_class rs c \<and> match_here (StarCls rs # as) False t))"

fun match_from :: "re_atom list \<Rightarrow> bool \<Rightarrow> string \<Rightarrow> bool" where
  "match_from p b [] = match_here p b []"
| "match_from p b (c # t) = (match_here p b (c # t) \<or> match_from p False t)"

definition MatchString :: "re_atom list \<Rightarrow> string \<Rightarrow> bool" where
  "MatchString p s = match_from p True s"

subsection \<open>Splitting into UTF-8 sequences (strings.Split with an empty separator)\<close>

text \<open>
  \<^verbatim>\<open>strings.Split(s, "")\<close> explodes \<^verbatim>\<open>s\<close> into its UTF-8 sequences, one string per rune;
  a byte that does not start a valid sequence is a piece of its own (older releases put
  the replacement character in its place; neither is an ASCII letter or digit).
  \<open>rune_size\<close> is the width \<^verbatim>\<open>utf8.DecodeRuneInString\<close> reports for the first rune of a
  non-empty string.
\<close>

definition continuation :: "nat \<Rightarrow> nat \<Rightarrow> string \<Rightarrow> nat \<Rightarrow> bool" where
  "continuation lo hi s i = (i < length s \<and> lo \<le> byte (s ! i) \<and> byte (s ! i) \<le> hi)"

definition rune_size :: "string \<Rightarrow> nat" where
  "rune_size s =
     (let b = byte (hd s);
          sz = (if b < 0xC2 then (1::nat) else if b < 0xE0 then 2 else if b < 0xF0 then 3
                else if b < 0xF5 then 4 else 1);
          lo = (if b = 0xE0 then (0xA0::nat) else if b = 0xF0 then 0x90 else 0x80);
          hi = (if b = 0xED then (0x9F::nat) else if b = 0xF4 then 0x8F else 0xBF)
      in if sz = 1 then 1
         else if \<not> continuation lo hi s 1 then 1
         else if sz = 2 then 2
         else if \<not> continuation 0x80 0xBF s 2 then 1
         else if sz = 3 then 3
         else if \<not> continuation 0x80 0xBF s 3 then 1
         else 4)"

function explode :: "string \<Rightarrow> string list" where
  "explode s = (if s = [] then [] else take (rune_size s) s # explode (drop (rune_size s) s))"
  by pat_completeness auto
termination
  by (relation "measure length") (auto simp: rune_size_def Let_def Suc_le_eq)

declare explode.simps [simp del]

subsection \<open>strconv.Atoi\<close>

datatype numerror = ErrSyntax | ErrRange

definition decimal_value :: "string \<Rightarrow> nat" where
  "decimal_value s = foldl (\<lambda>n ch. n * 10 + digit_val ch) 0 s"

text \<open>
  \<^verbatim>\<open>Atoi\<close> accepts an optional sign followed by at least one decimal digit and nothing else.
  On a syntax error it returns 0; a value outside the 64-bit \<^verbatim>\<open>int\<close> is clamped and reported
  as a range error.
\<close>

definition Atoi :: "string \<Rightarrow> int \<times> numerror option" where
  "Atoi s0 =
     (let neg = (s0 \<noteq> [] \<and> hd s0 = CHR ''-'');
          s = (if s0 \<noteq> [] \<and> (hd s0 = CHR ''-'' \<or> hd s0 = CHR ''+'') then tl s0 else s0)
      in if s = [] \<or> \<not> list_all is_digit s then (0, Some ErrSyntax)
         else let n = int (decimal_value s)
              in if neg then (if 2 ^ 63 < n then (- (2 ^ 63), Some ErrRange) else (- n, None))
                 else (if 2 ^ 63 \<le> n then (2 ^ 63 - 1, Some ErrRange) else (n, None)))"

text \<open>Go's \<^verbatim>\<open>%\<close> truncates towards zero: the remainder has the sign of the dividend.\<close>

definition go_rem :: "int \<Rightarrow> int \<Rightarrow> int" where
  "go_rem a b = sgn a * (\<bar>a\<bar> mod \<bar>b\<bar>)"

section \<open>IEEE 754 binary64 arithmetic\<close>

text \<open>
  Every finite \<^verbatim>\<open>float64\<close> is an integer multiple of the smallest subnormal, \<open>2\<close> to the
  power \<open>-1074\<close>; call that a unit. \<open>Finite s m e\<close> denotes \<open>m \<sqdot> 2\<^sup>e\<close> units with the sign \<open>s\<close>
  (\<open>True\<close> is negative): a sign bit, a magnitude and a binary exponent counted from
  \<open>-1074\<close>. So \<open>1.0\<close> is \<open>Finite False 1 bias\<close> with \<open>bias = 1074\<close>, and \<open>0.25\<close> is
  \<open>Finite False 1 (bias - 2)\<close>. A value has several such representations; the program
  only ever compares floats with zero. Every operation rounds its exact result to the
  nearest value with a 53-bit significand, ties to even, and overflows to an infinity at
  \<open>2\<close> to the power \<open>1024\<close>, which is \<open>2\<close> to the power \<open>1024 + bias\<close> units.
\<close>

datatype float64 = Finite bool nat nat | Infinity bool | NaN

definition bias :: nat where
  "bias = 1074"

fun bitlen :: "nat \<Rightarrow> nat" where
  "bitlen n = (if n = 0 then 0 else Suc (bitlen (n div 2)))"

declare bitlen.simps [simp del]

text \<open>
  \<open>round_to_even s f r q e\<close> rounds the magnitude \<open>(f + r / q) \<sqdot> 2\<^sup>e\<close> units, where \<open>r < q\<close>:
  it keeps the leading 53 bits of \<open>f\<close> and decides the direction from the dropped bits and
  the remainder \<open>r / q\<close>.
\<close>

definition round_to_even :: "bool \<Rightarrow> nat \<Rightarrow> nat \<Rightarrow> nat \<Rightarrow> nat \<Rightarrow> float64" where
  "round_to_even s f r q e =
     (let k = bitlen f - 53;
          h = f div 2 ^ k;
          lo = f mod 2 ^ k;
          up = (if k = 0 then q < 2 * r \<or> (2 * r = q \<and> odd h)
                else 2 ^ (k - 1) < lo \<or> (lo = 2 ^ (k - 1) \<and> (0 < r \<or> odd h)));
          n = (if up then h + 1 else h)
      in if 0 < n \<and> 1024 + bias < bitlen n + (e + k) then Infinity s else Finite s n (e + k))"

text \<open>
  \<open>round_ratio s p q\<close> is the float nearest to the positive rational \<open>p / q\<close>: the exponent
  is chosen so that the quotient has at least 53 bits, or is 0 in the subnormal range.
\<close>

definition round_ratio :: "bool \<Rightarrow> nat \<Rightarrow> nat \<Rightarrow> float64" where
  "round_ratio s p q =
     (let e = nat (int (bitlen p) + int bias - 53 - int (bitlen q));
          num = (if e \<le> bias then p * 2 ^ (bias - e) else p);
          den = (if e \<le> bias then q else q * 2 ^ (e - bias))
      in round_to_even s (num div den) (num mod den) den e)"

definition with_sign :: "bool \<Rightarrow> nat \<Rightarrow> int" where
  "with_sign s n = (if s then - int n else int n)"

fun fadd :: "float64 \<Rightarrow> float64 \<Rightarrow> float64" where
  "fadd NaN y = NaN"
| "fadd x NaN = NaN"
| "fadd (Infinity s) (Infinity t) = (if s = t then Infinity s else NaN)"
| "fadd (Infinity s) (Finite t n f) = Infinity s"
| "fadd (Finite s m e) (Infinity t) = Infinity t"
| "fadd (Finite s m e) (Finite t n f) =
     (let g = min e f;
          v = with_sign s (m * 2 ^ (e - g)) + with_sign t (n * 2 ^ (f - g))
      in if v = 0 then Finite (s \<and> t) 0 0 else round_to_even (v < 0) (nat \<bar>v\<bar>) 0 1 g)"

fun fneg :: "float64 \<Rightarrow> float64" where
  "fneg (Finite s m e) = Finite (\<not> s) m e"
| "fneg (Infinity s) = Infinity (\<not> s)"
| "fneg NaN = NaN"

definition fsub :: "float64 \<Rightarrow> float64 \<Rightarrow> float64" where
  "fsub x y = fadd x (fneg y)"

text \<open>
  \<^verbatim>\<open>math.Mod(x, y)\<close> is the remainder of \<open>x / y\<close> with the sign of \<open>x\<close>; it is exact. It is NaN
  when \<open>x\<close> is infinite or NaN, or \<open>y\<close> is zero or NaN, and \<open>x\<close> when \<open>y\<close> is infinite.
\<close>

fun Mod :: "float64 \<Rightarrow> float64 \<Rightarrow> float64" where
  "Mod (Finite s m e) (Finite t n f) =
     (if n = 0 then NaN
      else let g = min e f in Finite s ((m * 2 ^ (e - g)) mod (n * 2 ^ (f - g))) g)"
| "Mod (Finite s m e) (Infinity t) = Finite s m e"
| "Mod x y = NaN"

text \<open>The comparisons \<^verbatim>\<open>x == 0\<close> and \<^verbatim>\<open>x <= y\<close>; both are false on a NaN.\<close>

fun is_zero :: "float64 \<Rightarrow> bool" where
  "is_zero (Finite s m e) = (m = 0)"
| "is_zero x = False"


definition float64_of_nat :: "nat \<Rightarrow> float64" where
  "float64_of_nat n = round_to_even False n 0 1 bias"

text \<open>
  The conversion \<^verbatim>\<open>int(x)\<close> truncates towards zero. Go leaves the result open when the
  value does not fit; the amd64 instruction the compiler emits yields the smallest
  \<^verbatim>\<open>int64\<close> then, and for a NaN.
\<close>

definition min_int64 :: "64 word" where
  "min_int64 = 0x8000000000000000"

fun float64_to_int :: "float64 \<Rightarrow> 64 word" where
  "float64_to_int (Finite s m e) =
     (let t = with_sign s (if bias \<le> e then m * 2 ^ (e - bias) else m div 2 ^ (bias - e))
      in if - (2 ^ 63) \<le> t \<and> t < 2 ^ 63 then word_of_int t else min_int64)"
| "float64_to_int x = min_int64"

subsection \<open>strconv.ParseFloat\<close>

text \<open>
  \<^verbatim>\<open>ParseFloat(s, 64)\<close> accepts the special values (\<^verbatim>\<open>inf\<close>, \<^verbatim>\<open>infinity\<close> with an optional
  sign, \<^verbatim>\<open>nan\<close> without one, in any letter case), decimal numbers with an optional
  fraction and exponent, and hexadecimal numbers with a mandatory \<^verbatim>\<open>p\<close> exponent;
  underscores may separate digits. The whole string has to be consumed. The result is the
  float nearest to the number written, an infinity with \<open>ErrRange\<close> when that overflows,
  and \<open>0\<close> with \<open>ErrSyntax\<close> when the string is not a number. The scanning functions follow
  \<^verbatim>\<open>special\<close>, \<^verbatim>\<open>readFloat\<close> and \<^verbatim>\<open>underscoreOK\<close> of package strconv; the conversion is
  the correct rounding that package documents.
\<close>

definition lower :: "char \<Rightarrow> nat" where
  \<comment> \<open>\<^verbatim>\<open>c | ('x' - 'X')\<close> sets bit 5 of the byte\<close>
  "lower c = (if (byte c div 32) mod 2 = 1 then byte c else byte c + 32)"

definition to_lower_ascii :: "char \<Rightarrow> nat" where
  "to_lower_ascii c = (if between (CHR ''A'') (CHR ''Z'') c then byte c + 32 else byte c)"

definition lower_between :: "char \<Rightarrow> char \<Rightarrow> char \<Rightarrow> bool" where
  "lower_between lo hi c = (byte lo \<le> lower c \<and> lower c \<le> byte hi)"

definition special :: "string \<Rightarrow> float64 option" where
  "special s =
     (let signed = (s \<noteq> [] \<and> (hd s = CHR ''+'' \<or> hd s = CHR ''-''));
          neg = (s \<noteq> [] \<and> hd s = CHR ''-'');
          body = map to_lower_ascii (if signed then tl s else s)
      in if body = map byte ''inf'' \<or> body = map byte ''infinity'' then Some (Infinity neg)
         else if \<not> signed \<and> body = map byte ''nan'' then Some NaN
         else None)"

text \<open>
  The digit loop of \<^verbatim>\<open>readFloat\<close>. The state holds \<^verbatim>\<open>sawdot\<close>, \<^verbatim>\<open>sawdigits\<close>, whether an
  underscore was seen, the digits read so far as a number in the base, and how many of
  them follow the point. It returns the state and the unread rest.
\<close>

type_synonym mantissa_state = "bool \<times> bool \<times> bool \<times> nat \<times> nat"

fun scan_mantissa :: "nat \<Rightarrow> string \<Rightarrow> mantissa_state \<Rightarrow> mantissa_state \<times> string" where
  "scan_mantissa base [] st = (st, [])"
| "scan_mantissa base (c # cs) (sawdot, sawdigits, us, mant, nfrac) =
     (if c = CHR ''_'' then scan_mantissa base cs (sawdot, sawdigits, True, mant, nfrac)
      else if c = CHR ''.'' then
        (if sawdot then ((sawdot, sawdigits, us, mant, nfrac), c # cs)
         else scan_mantissa base cs (True, sawdigits, us, mant, nfrac))
      else if is_digit c then
        scan_mantissa base cs
          (sawdot, True, us, mant * base + digit_val c, if sawdot then nfrac + 1 else nfrac)
      else if base = 16 \<and> lower_between (CHR ''a'') (CHR ''f'') c then
        scan_mantissa base cs
          (sawdot, True, us, mant * base + (lower c - byte (CHR ''a'') + 10),
           if sawdot then nfrac + 1 else nfrac)
      else ((sawdot, sawdigits, us, mant, nfrac), c # cs))"

text \<open>The exponent digits; the accumulated exponent stops growing at 10000.\<close>

fun scan_exponent :: "string \<Rightarrow> bool \<times> nat \<Rightarrow> (bool \<times> nat) \<times> string" where
  "scan_exponent [] st = (st, [])"
| "scan_exponent (c # cs) (us, e) =
     (if c = CHR ''_'' then scan_exponent cs (True, e)
      else if is_digit c then scan_exponent cs (us, if e < 10000 then e * 10 + digit_val c else e)
      else ((us, e), c # cs))"

fun underscore_loop :: "bool \<Rightarrow> string \<Rightarrow> char \<Rightarrow> bool" where
  "underscore_loop hex [] saw = (saw \<noteq> CHR ''_'')"
| "underscore_loop hex (c # cs) saw =
     (if is_digit c \<or> (hex \<and> lower_between (CHR ''a'') (CHR ''f'') c)
      then underscore_loop hex cs (CHR ''0'')
      else if c = CHR ''_'' then (saw = CHR ''0'' \<and> underscore_loop hex cs (CHR ''_''))
      else saw \<noteq> CHR ''_'' \<and> underscore_loop hex cs (CHR ''!''))"

definition underscoreOK :: "string \<Rightarrow> bool" where
  "underscoreOK s0 =
     (let s = (if s0 \<noteq> [] \<and> (hd s0 = CHR ''-'' \<or> hd s0 = CHR ''+'') then tl s0 else s0)
      in if 2 \<le> length s \<and> hd s = CHR ''0'' \<and>
            (lower (s ! 1) = byte (CHR ''b'') \<or> lower (s ! 1) = byte (CHR ''o'') \<or> lower (s ! 1) = byte (CHR ''x''))
         then underscore_loop (lower (s ! 1) = byte (CHR ''x'')) (drop 2 s) (CHR ''0'')
         else underscore_loop False s (CHR ''^''))"

text \<open>
  \<open>readFloat\<close> returns the sign, the base, the digits as a number, and the exponent of the
  base (10, or 2 for a hexadecimal number) that scales it; \<open>None\<close> when the string is not
  a number or is not read to its end.
\<close>

definition readFloat :: "string \<Rightarrow> (bool \<times> nat \<times> nat \<times> int) option" where
  "readFloat s =
     (if s = [] then None
      else
        let neg = (hd s = CHR ''-'');
            s1 = (if hd s = CHR ''+'' \<or> hd s = CHR ''-'' then tl s else s);
            hex = (2 < length s1 \<and> hd s1 = CHR ''0'' \<and> lower (s1 ! 1) = byte (CHR ''x''));
            base = (if hex then 16 else 10);
            expChar = byte (if hex then CHR ''p'' else CHR ''e'');
            ((sawdot, sawdigits, us, mant, nfrac), s2) =
               scan_mantissa base (if hex then drop 2 s1 else s1) (False, False, False, 0, 0);
            shift = - int (if hex then 4 * nfrac else nfrac)
        in if \<not> sawdigits then None
           else if s2 \<noteq> [] \<and> lower (hd s2) = expChar then
             (let s3 = tl s2;
                  eneg = (s3 \<noteq> [] \<and> hd s3 = CHR ''-'');
                  s4 = (if s3 \<noteq> [] \<and> (hd s3 = CHR ''+'' \<or> hd s3 = CHR ''-'') then tl s3 else s3)
              in if s4 = [] \<or> \<not> is_digit (hd s4) then None
                 else let ((us', e), s5) = scan_exponent s4 (us, 0)
                      in if s5 \<noteq> [] \<or> (us' \<and> \<not> underscoreOK s) then None
                         else Some (neg, base, mant, shift + (if eneg then - int e else int e)))
           else if hex \<or> s2 \<noteq> [] \<or> (us \<and> \<not> underscoreOK s) then None
           else Some (neg, base, mant, shift))"

definition ParseFloat :: "string \<Rightarrow> float64 \<times> numerror option" where
  "ParseFloat s =
     (case special s of
        Some v \<Rightarrow> (v, None)
      | None \<Rightarrow>
          (case readFloat s of
             None \<Rightarrow> (Finite False 0 0, Some ErrSyntax)
           | Some (neg, base, mant, x) \<Rightarrow>
               let b = (if base = 16 then 2 else 10);
                   f = (if mant = 0 then Finite neg 0 0
                        else if 0 \<le> x then round_ratio neg (mant * b ^ nat x) 1
                        else round_ratio neg mant (b ^ nat (- x)))
               in (f, case f of Infinity u \<Rightarrow> Some ErrRange | _ \<Rightarrow> None)))"

section \<open>The receipt processor\<close>

subsection \<open>Errors (package errors)\<close>

text \<open>
  \<^verbatim>\<open>errors.New\<close> makes an error from its message; \<^verbatim>\<open>errors.Join\<close> of two errors wraps
  both, and its message is theirs with a newline between.
\<close>

datatype goerror = ErrorsNew string | ErrorsJoin goerror goerror

fun Error :: "goerror \<Rightarrow> string" where
  "Error (ErrorsNew msg) = msg"
| "Error (ErrorsJoin a b) = Error a @ [CHR 0x0A] @ Error b"

subsection \<open>Data\<close>

record Item =
  ShortDescription :: string
  Price :: string

record Receipt =
  Retailer :: string
  PurchaseDate :: string
  PurchaseTime :: string
  Items :: "Item list"
  Total :: string
  Points :: "64 word"

text \<open>
  \<^verbatim>\<open>Points\<close> is a Go \<^verbatim>\<open>int\<close>, 64 bits wide on the 64-bit platforms; additions wrap around.
  A call of \<^verbatim>\<open>ReadReceipt\<close> either returns the receipt and an optional error, or panics.
\<close>

datatype outcome = Panic | Return Receipt "goerror option"

subsection \<open>ReadReceipt\<close>

definition isdate :: "re_atom list" where
  \<comment> \<open>\<^verbatim>\<open>^[0-9]{4}-[0-1][1-9]-[0-2][0-9]\<close>\<close>
  "isdate = [Bol] @ replicate 4 (Cls [(CHR ''0'', CHR ''9'')]) @
     [Cls [(CHR ''-'', CHR ''-'')], Cls [(CHR ''0'', CHR ''1'')], Cls [(CHR ''1'', CHR ''9'')],
      Cls [(CHR ''-'', CHR ''-'')], Cls [(CHR ''0'', CHR ''2'')], Cls [(CHR ''0'', CHR ''9'')]]"

definition istime :: "re_atom list" where
  \<comment> \<open>\<^verbatim>\<open>^[0-2][0-9]:[0-5][0-9]\<close>\<close>
  "istime = [Bol, Cls [(CHR ''0'', CHR ''2'')], Cls [(CHR ''0'', CHR ''9'')],
     Cls [(CHR '':'', CHR '':'')], Cls [(CHR ''0'', CHR ''5'')], Cls [(CHR ''0'', CHR ''9'')]]"

definition isalpha :: "re_atom list" where
  \<comment> \<open>\<^verbatim>\<open>^[a-zA-Z0-9]*$\<close>\<close>
  "isalpha = [Bol, StarCls [(CHR ''a'', CHR ''z''), (CHR ''A'', CHR ''Z''), (CHR ''0'', CHR ''9'')], Eol]"

definition dateErr :: goerror where
  "dateErr = ErrorsNew ''invalid Purchase Date Format ''"

definition timeErr :: goerror where
  "timeErr = ErrorsNew ''invalid Purchase Time Format ''"

definition totalErr :: goerror where
  "totalErr = ErrorsNew ''total Price does not match item prices ''"

definition f64_one :: float64 where
  "f64_one = Finite False 1 bias"

definition f64_quarter :: float64 where
  "f64_quarter = Finite False 1 (bias - 2)"

text \<open>The loop over the characters of the retailer name (lines 78 to 85).\<close>

fun retailer_loop :: "string list \<Rightarrow> 64 word \<Rightarrow> 64 word" where
  "retailer_loop [] points = points"
| "retailer_loop (ch # chars) points =
     retailer_loop chars (if MatchString isalpha ch then points + 1 else points)"

text \<open>
  The increments of one pass of the loop over the items (lines 91 to 123): the
  description-length bonus of the item, the odd-day bonus and the afternoon bonus.
\<close>

definition description_bonus :: "Item \<Rightarrow> 64 word" where
  "description_bonus item =
     (if length (ShortDescription item) mod 3 = 0
      then (let price = fst (ParseFloat (Price item));
                price = fadd price (fsub f64_one (Mod price f64_one))
            in float64_to_int price)
      else 0)"

definition odd_day_bonus :: "string \<Rightarrow> 64 word" where
  "odd_day_bonus purchaseDate =
     (let day = drop (length purchaseDate - 2) purchaseDate;
          dayint = fst (Atoi day)
      in if go_rem dayint 2 = 1 then 6 else 0)"

definition afternoon_bonus :: "string \<Rightarrow> 64 word" where
  "afternoon_bonus purchaseTime =
     (let time = take 2 purchaseTime;
          timeint = fst (Atoi time)
      in if 14 \<le> timeint \<and> timeint < 16 then 10 else 0)"

text \<open>
  The loop state is the running total and the points. The two slice expressions panic
  when the string has fewer than two bytes; \<open>None\<close> is the panic.
\<close>

fun item_loop :: "Receipt \<Rightarrow> Item list \<Rightarrow> float64 \<times> 64 word \<Rightarrow> (float64 \<times> 64 word) option" where
  "item_loop receipt [] (total', points) = Some (total', points)"
| "item_loop receipt (item # items) (total', points) =
     (let itemPrice = fst (ParseFloat (Price item));
          total' = fsub total' itemPrice;
          points = points + description_bonus item
      in if length (PurchaseDate receipt) < 2 then None
         else let points = points + odd_day_bonus (PurchaseDate receipt)
              in if length (PurchaseTime receipt) < 2 then None
                 else let points = points + afternoon_bonus (PurchaseTime receipt)
                      in item_loop receipt items (total', points))"

text \<open>
  The points gathered before the item loop: the two bonuses on the total (lines 66 to
  74), one point per alphanumeric character of the retailer (lines 76 to 85, the loop
  above), and the bonus on the number of items (lines 87 and 88).
\<close>

definition total_bonus :: "float64 \<Rightarrow> 64 word" where
  "total_bonus total' =
     (let points = 0;
          points = (if is_zero (Mod total' f64_one) then points + 50 else points);
          points = (if is_zero (Mod total' f64_quarter) then points + 25 else points)
      in points)"

definition pair_bonus :: "Item list \<Rightarrow> 64 word" where
  "pair_bonus its = (let items = length its in of_nat (items div 2))"

text \<open>
  \<open>ReadReceipt\<close> takes what \<^verbatim>\<open>json.NewDecoder(c.Request.Body).Decode(&receipt)\<close> left: the
  decoding error \<open>err\<close> of line 42, if any, and the receipt as decoded. Line 46 declares a
  second variable \<^verbatim>\<open>err\<close> in the \<^verbatim>\<open>else\<close> block, written \<open>err'\<close> here: the checks assign
  that one (lines 54, 61, 127 and 131). The \<^verbatim>\<open>return\<close> of line 134 is outside the block and
  returns the \<open>err\<close> of line 42.
\<close>

definition ReadReceipt :: "goerror option \<Rightarrow> Receipt \<Rightarrow> outcome" where
  "ReadReceipt err receipt =
     (case err of
        Some e \<Rightarrow> Return receipt err
      | None \<Rightarrow>
          let err' = ErrorsNew [];
              purchaseDate = PurchaseDate receipt;
              err' = (if \<not> MatchString isdate purchaseDate then ErrorsJoin err' dateErr else err');
              purchaseTime = PurchaseTime receipt;
              err' = (if \<not> MatchString istime purchaseTime then ErrorsJoin err' timeErr else err');
              total' = fst (ParseFloat (Total receipt));
              points = total_bonus total';
              chars = explode (Retailer receipt);
              points = retailer_loop chars points;
              points = points + pair_bonus (Items receipt)
          in case item_loop receipt (Items receipt) (total', points) of
               None \<Rightarrow> Panic
             | Some (total', points) \<Rightarrow>
                 let receipt = receipt\<lparr>Points := points\<rparr>;
                     err' = (if \<not> is_zero total' then ErrorsJoin err' totalErr else err');
                     err' = (if length (Error err') = 0 then None else Some err')
                 in Return receipt err)"

subsection \<open>Quantities the statements refer to\<close>

text \<open>
  What is left of the total after every item price is subtracted from it, in the order and
  with the float subtraction of the item loop.
\<close>

definition remainder :: "Receipt \<Rightarrow> float64" where
  "remainder receipt =
     foldl (\<lambda>total' item. fsub total' (fst (ParseFloat (Price item))))
       (fst (ParseFloat (Total receipt))) (Items receipt)"

text \<open>The item loop runs to its end: there is no item, or both strings can be sliced.\<close>

definition loop_completes :: "Receipt \<Rightarrow> bool" where
  "loop_completes receipt =
     (Items receipt = [] \<or>
      (2 \<le> length (PurchaseDate receipt) \<and> 2 \<le> length (PurchaseTime receipt)))"

text \<open>The points of the retailer rule and of the description rule over all items.\<close>

definition retailer_points :: "string \<Rightarrow> 64 word" where
  "retailer_points name = retailer_loop (explode name) 0"

definition description_points :: "Item list \<Rightarrow> 64 word" where
  "description_points its = sum_list (map description_bonus its)"


section \<open>Evaluation on concrete inputs\<close>

text \<open>
  Rewrite rules that run the definitions on literals. \<open>bitlen\<close> recurses on the binary
  numeral, and the fixed repetition of the date pattern is written out.
\<close>

lemma bitlen_numeral: "bitlen (numeral w) = Suc (bitlen (numeral w div 2))"
  by (subst bitlen.simps) simp

lemma bitlen_small: "bitlen 0 = 0" "bitlen 1 = 1" "bitlen (Suc 0) = 1"
  by (simp_all add: bitlen.simps)

lemma isdate_unfolded:
  "isdate = [Bol, Cls [(CHR ''0'', CHR ''9'')], Cls [(CHR ''0'', CHR ''9'')],
     Cls [(CHR ''0'', CHR ''9'')], Cls [(CHR ''0'', CHR ''9'')],
     Cls [(CHR ''-'', CHR ''-'')], Cls [(CHR ''0'', CHR ''1'')], Cls [(CHR ''1'', CHR ''9'')],
     Cls [(CHR ''-'', CHR ''-'')], Cls [(CHR ''0'', CHR ''2'')], Cls [(CHR ''0'', CHR ''9'')]]"
  by (simp add: isdate_def eval_nat_numeral)

lemmas char_eval = byte_def between_def is_digit_def digit_val_def in_class_def lower_def
  to_lower_ascii_def lower_between_def

lemmas regexp_eval = char_eval MatchString_def isdate_unfolded istime_def isalpha_def

lemmas float_eval = Let_def bias_def bitlen_numeral bitlen_small round_to_even_def round_ratio_def
  with_sign_def fsub_def float64_of_nat_def min_int64_def f64_one_def f64_quarter_def

lemmas parse_eval = char_eval float_eval special_def underscoreOK_def readFloat_def
  ParseFloat_def decimal_value_def Atoi_def go_rem_def

lemmas receipt_eval = regexp_eval parse_eval rune_size_def continuation_def explode.simps
  dateErr_def timeErr_def totalErr_def description_bonus_def odd_day_bonus_def
  afternoon_bonus_def total_bonus_def pair_bonus_def ReadReceipt_def


section \<open>The format checks\<close>

text \<open>
  A pattern without \<^verbatim>\<open>$\<close> cannot see what follows a match: a match of a prefix of the text
  is a match of the text.
\<close>

lemma match_here_append:
  "match_here p b s \<Longrightarrow> Eol \<notin> set p \<Longrightarrow> match_here p b (s @ t)"
proof (induction p b s rule: match_here.induct)
  case (4 rs as b s)
  then show ?case by (cases s) auto
next
  case (5 rs as b s)
  then show ?case by (cases s) auto
qed auto

lemma match_here_from: "match_here p b s \<Longrightarrow> match_from p b s"
  by (cases s) auto

lemma match_from_append:
  "match_from p b s \<Longrightarrow> Eol \<notin> set p \<Longrightarrow> match_from p b (s @ t)"
proof (induction s arbitrary: b)
  case Nil
  then have "match_here p b ([] @ t)"
    by (intro match_here_append) simp_all
  then show ?case by (simp add: match_here_from)
next
  case (Cons c s)
  then show ?case by (auto dest: match_here_append [where t = t])
qed

lemma MatchString_append:
  "MatchString p s \<Longrightarrow> Eol \<notin> set p \<Longrightarrow> MatchString p (s @ t)"
  unfolding MatchString_def by (rule match_from_append)

text \<open>
  Claim C10. The date and time patterns are anchored at the start only: a string whose
  first 10 bytes match the date pattern passes the date check whatever follows them, and
  a string whose first 5 bytes match the time pattern passes the time check. So
  \<^verbatim>\<open>2022-01-01XYZ\<close> is a well-formed purchase date for \<open>ReadReceipt\<close>.
\<close>

theorem format_checks_ignore_trailing:
  "(MatchString isdate (take 10 s) \<longrightarrow> MatchString isdate s) \<and>
   (MatchString istime (take 5 s) \<longrightarrow> MatchString istime s)"
proof (intro conjI impI)
  assume "MatchString isdate (take 10 s)"
  then have "MatchString isdate (take 10 s @ drop 10 s)"
    by (rule MatchString_append) (simp add: isdate_unfolded)
  then show "MatchString isdate s" by simp
next
  assume "MatchString istime (take 5 s)"
  then have "MatchString istime (take 5 s @ drop 5 s)"
    by (rule MatchString_append) (simp add: istime_def)
  then show "MatchString istime s" by simp
qed

theorem format_checks_ignore_trailing_witness:
  "MatchString isdate (take 10 ''2022-01-01XYZ'') \<and> MatchString isdate ''2022-01-01XYZ'' \<and>
   MatchString istime (take 5 ''13:01:59 pm'') \<and> MatchString istime ''13:01:59 pm''"
proof -
  have d: "MatchString isdate (take 10 ''2022-01-01XYZ'')"
    by (simp add: regexp_eval)
  have t: "MatchString istime (take 5 ''13:01:59 pm'')"
    by (simp add: regexp_eval)
  from format_checks_ignore_trailing [of "''2022-01-01XYZ''"] d
  have "MatchString isdate ''2022-01-01XYZ''" by blast
  moreover from format_checks_ignore_trailing [of "''13:01:59 pm''"] t
  have "MatchString istime ''13:01:59 pm''" by blast
  ultimately show ?thesis using d t by blast
qed

section \<open>Bounds on the float operations\<close>










section \<open>The item loop\<close>

lemma item_loop_panics:
  "length (PurchaseDate receipt) < 2 \<or> length (PurchaseTime receipt) < 2 \<Longrightarrow>
   item_loop receipt (item # items) st = None"
  by (cases st) (auto simp: Let_def)

lemma short_string_fails_checks:
  assumes "length s < 2"
  shows "\<not> MatchString isdate s \<and> \<not> MatchString istime s"
proof (cases s)
  case Nil
  then show ?thesis by (simp add: MatchString_def isdate_unfolded istime_def)
next
  case (Cons c t)
  with assms have "t = []" by simp
  with Cons show ?thesis by (simp add: MatchString_def isdate_unfolded istime_def)
qed

text \<open>
  Claim C9. \<open>ReadReceipt\<close> is not total: on a receipt with at least one item whose purchase
  date or purchase time has fewer than two bytes, the first pass of the item loop slices
  the string out of range and the call panics. Such a string has already failed its
  format check, which does not keep the loop from running.
\<close>

theorem short_date_or_time_panics:
  assumes "Items receipt \<noteq> []"
    and "length (PurchaseDate receipt) < 2 \<or> length (PurchaseTime receipt) < 2"
  shows "ReadReceipt None receipt = Panic \<and>
         \<not> (MatchString isdate (PurchaseDate receipt) \<and>
            MatchString istime (PurchaseTime receipt))"
proof
  from assms(1) obtain item items where "Items receipt = item # items"
    by (cases "Items receipt") auto
  with assms(2) show "ReadReceipt None receipt = Panic"
    by (simp add: ReadReceipt_def Let_def item_loop_panics del: item_loop.simps)
  from assms(2) show "\<not> (MatchString isdate (PurchaseDate receipt) \<and>
      MatchString istime (PurchaseTime receipt))"
    using short_string_fails_checks by blast
qed

theorem short_date_or_time_panics_witness:
  "[\<lparr>ShortDescription = ''Gum'', Price = ''1.00''\<rparr>] \<noteq> [] \<and> length ''1'' < 2 \<and>
   ReadReceipt None \<lparr>Retailer = ''Target'', PurchaseDate = ''1'', PurchaseTime = ''13:01'',
     Items = [\<lparr>ShortDescription = ''Gum'', Price = ''1.00''\<rparr>], Total = ''1.00'',
     Points = 0\<rparr> = Panic \<and>
   \<not> MatchString isdate ''1''"
proof -
  have "ReadReceipt None \<lparr>Retailer = ''Target'', PurchaseDate = ''1'',
     PurchaseTime = ''13:01'', Items = [\<lparr>ShortDescription = ''Gum'', Price = ''1.00''\<rparr>],
     Total = ''1.00'', Points = 0\<rparr> = Panic"
    by (rule short_date_or_time_panics [THEN conjunct1]) simp_all
  moreover have "\<not> MatchString isdate ''1''"
    by (simp add: regexp_eval)
  ultimately show ?thesis by simp
qed

section \<open>The loops in closed form\<close>

lemma item_loop_result:
  "item_loop receipt its (t, p) =
     (if its = [] \<or> (2 \<le> length (PurchaseDate receipt) \<and> 2 \<le> length (PurchaseTime receipt))
      then Some (foldl (\<lambda>total' item. fsub total' (fst (ParseFloat (Price item)))) t its,
                 p + description_points its
                   + of_nat (length its) * odd_day_bonus (PurchaseDate receipt)
                   + of_nat (length its) * afternoon_bonus (PurchaseTime receipt))
      else None)"
proof (induction its arbitrary: t p)
  case Nil
  then show ?case by (simp add: description_points_def)
next
  case (Cons item its)
  show ?case
  proof (cases "2 \<le> length (PurchaseDate receipt) \<and> 2 \<le> length (PurchaseTime receipt)")
    case True
    then show ?thesis
      by (simp add: Cons.IH Let_def description_points_def algebra_simps)
  next
    case False
    then have "length (PurchaseDate receipt) < 2 \<or> length (PurchaseTime receipt) < 2"
      by auto
    from item_loop_panics [OF this] False show ?thesis by (simp del: item_loop.simps)
  qed
qed

lemma retailer_loop_count:
  "retailer_loop chars p = p + of_nat (length (filter (MatchString isalpha) chars))"
  by (induction chars arbitrary: p) simp_all

text \<open>
  \<open>ReadReceipt\<close> in closed form, when decoding succeeded: it panics exactly when the item
  loop does not complete; otherwise it returns the receipt with the sum of the rule
  contributions, and no error.
\<close>

lemma ReadReceipt_result:
  "ReadReceipt None receipt =
     (if loop_completes receipt
      then Return
             (receipt\<lparr>Points :=
                total_bonus (fst (ParseFloat (Total receipt)))
                  + retailer_points (Retailer receipt)
                  + pair_bonus (Items receipt)
                  + description_points (Items receipt)
                  + of_nat (length (Items receipt)) * odd_day_bonus (PurchaseDate receipt)
                  + of_nat (length (Items receipt)) * afternoon_bonus (PurchaseTime receipt)\<rparr>)
             None
      else Panic)"
proof -
  have points: "retailer_loop (explode (Retailer receipt)) p = p + retailer_points (Retailer receipt)"
    for p
    by (simp add: retailer_points_def retailer_loop_count [of _ p] retailer_loop_count [of _ 0])
  show ?thesis
    by (simp add: ReadReceipt_def Let_def item_loop_result points loop_completes_def)
qed

section \<open>The scoring rules on concrete receipts\<close>

text \<open>
  Claim C1. The item-pair rule is documented as 5 points for every two items, that is
  \<open>\<lfloor>itemCount / 2\<rfloor> \<sqdot> 5\<close>. The code adds \<^verbatim>\<open>items / 2\<close>: a receipt with two items gets 1 point
  from the rule, not 5. The receipt below scores 25 for its total and 1 for its pair.
\<close>

theorem pair_bonus_is_one_point:
  "pair_bonus [\<lparr>ShortDescription = ''ab'', Price = ''1.25''\<rparr>,
               \<lparr>ShortDescription = ''ab'', Price = ''1.25''\<rparr>] = 1 \<and>
   ReadReceipt None \<lparr>Retailer = '''', PurchaseDate = ''2022-01-02'', PurchaseTime = ''13:01'',
     Items = [\<lparr>ShortDescription = ''ab'', Price = ''1.25''\<rparr>,
              \<lparr>ShortDescription = ''ab'', Price = ''1.25''\<rparr>],
     Total = ''2.50'', Points = 0\<rparr>
   = Return \<lparr>Retailer = '''', PurchaseDate = ''2022-01-02'', PurchaseTime = ''13:01'',
     Items = [\<lparr>ShortDescription = ''ab'', Price = ''1.25''\<rparr>,
              \<lparr>ShortDescription = ''ab'', Price = ''1.25''\<rparr>],
     Total = ''2.50'', Points = 26\<rparr> None"
  by (simp add: receipt_eval cong: let_weak_cong)

text \<open>
  Claim C2. The description rule is documented as: when the trimmed length of the
  description is a multiple of 3, multiply the price by 0.2 and round up. The code takes
  the length untrimmed and never multiplies by 0.2: for the item \<^verbatim>\<open>abc\<close> at \<^verbatim>\<open>10.00\<close> it adds
  11 points, where \<open>\<lceil>10.00 \<sqdot> 0.2\<rceil>\<close> is 2; and the description \<^verbatim>\<open> abc\<close>, of trimmed length 3
  and length 4, earns nothing.
\<close>

theorem description_bonus_without_factor:
  "description_bonus \<lparr>ShortDescription = ''abc'', Price = ''10.00''\<rparr> = 11 \<and>
   description_bonus \<lparr>ShortDescription = '' abc'', Price = ''10.00''\<rparr> = 0 \<and>
   ReadReceipt None \<lparr>Retailer = '''', PurchaseDate = ''2022-01-02'', PurchaseTime = ''13:01'',
     Items = [\<lparr>ShortDescription = ''abc'', Price = ''10.00''\<rparr>],
     Total = ''10.00'', Points = 0\<rparr>
   = Return \<lparr>Retailer = '''', PurchaseDate = ''2022-01-02'', PurchaseTime = ''13:01'',
     Items = [\<lparr>ShortDescription = ''abc'', Price = ''10.00''\<rparr>],
     Total = ''10.00'', Points = 86\<rparr> None"
  by (simp add: receipt_eval cong: let_weak_cong)

text \<open>
  Claim C5. Rounding up leaves a whole number unchanged, so a whole-dollar price should
  contribute exactly the price. The code computes \<^verbatim>\<open>price + (1 - math.Mod(price, 1))\<close>, which
  adds 1 to a price without cents: an item with an empty description at \<^verbatim>\<open>3\<close> contributes 4.
\<close>

theorem whole_price_is_bumped:
  "description_bonus \<lparr>ShortDescription = '''', Price = ''3''\<rparr> = 4 \<and>
   ReadReceipt None \<lparr>Retailer = '''', PurchaseDate = ''2022-01-02'', PurchaseTime = ''13:01'',
     Items = [\<lparr>ShortDescription = '''', Price = ''3''\<rparr>],
     Total = ''3'', Points = 0\<rparr>
   = Return \<lparr>Retailer = '''', PurchaseDate = ''2022-01-02'', PurchaseTime = ''13:01'',
     Items = [\<lparr>ShortDescription = '''', Price = ''3''\<rparr>],
     Total = ''3'', Points = 79\<rparr> None"
  by (simp add: receipt_eval cong: let_weak_cong)

section \<open>The odd-day rule\<close>

lemma odd_day_bonus_six:
  assumes "Atoi (drop (length d - 2) d) = (day, None)" and "odd day" and "0 \<le> day"
  shows "odd_day_bonus d = 6"
proof -
  from assms(2,3) have "0 < day" by (cases "day = 0") auto
  moreover from assms(2) have "day mod 2 = 1" by presburger
  ultimately have "go_rem day 2 = 1" by (simp add: go_rem_def)
  with assms(1) show ?thesis by (simp add: odd_day_bonus_def)
qed

text \<open>
  Claim C7, as the code has it. On every receipt for which \<open>ReadReceipt\<close> returns and whose
  purchase date ends in two bytes that \<^verbatim>\<open>Atoi\<close> reads as an odd integer that is not
  negative, the odd-day rule adds 6 in every pass of the item loop: the points are the
  contributions of the other rules plus \<open>6 \<sqdot> itemCount\<close>, which is 0 for a receipt
  without items.
\<close>

theorem odd_day_rule_contribution:
  assumes "ReadReceipt None receipt = Return scored err"
    and "Atoi (drop (length (PurchaseDate receipt) - 2) (PurchaseDate receipt)) = (day, None)"
    and "odd day" and "0 \<le> day"
  shows "odd_day_bonus (PurchaseDate receipt) = 6 \<and>
         Points scored =
           total_bonus (fst (ParseFloat (Total receipt)))
             + retailer_points (Retailer receipt)
             + pair_bonus (Items receipt)
             + description_points (Items receipt)
             + 6 * of_nat (length (Items receipt))
             + of_nat (length (Items receipt)) * afternoon_bonus (PurchaseTime receipt)"
proof -
  have six: "odd_day_bonus (PurchaseDate receipt) = 6"
    using assms(2-4) by (rule odd_day_bonus_six)
  from assms(1) have "loop_completes receipt"
    by (simp add: ReadReceipt_result split: if_splits)
  with assms(1) have "Points scored =
      total_bonus (fst (ParseFloat (Total receipt)))
        + retailer_points (Retailer receipt)
        + pair_bonus (Items receipt)
        + description_points (Items receipt)
        + of_nat (length (Items receipt)) * odd_day_bonus (PurchaseDate receipt)
        + of_nat (length (Items receipt)) * afternoon_bonus (PurchaseTime receipt)"
    by (auto simp: ReadReceipt_result)
  with six show ?thesis by (simp add: mult.commute)
qed

theorem odd_day_rule_contribution_witness:
  "ReadReceipt None \<lparr>Retailer = ''Target'', PurchaseDate = ''2022-01-01'',
     PurchaseTime = ''13:01'',
     Items = [\<lparr>ShortDescription = ''Gum'', Price = ''1.00''\<rparr>,
              \<lparr>ShortDescription = ''Mints'', Price = ''2.50''\<rparr>],
     Total = ''3.50'', Points = 0\<rparr>
   = Return \<lparr>Retailer = ''Target'', PurchaseDate = ''2022-01-01'',
     PurchaseTime = ''13:01'',
     Items = [\<lparr>ShortDescription = ''Gum'', Price = ''1.00''\<rparr>,
              \<lparr>ShortDescription = ''Mints'', Price = ''2.50''\<rparr>],
     Total = ''3.50'', Points = 46\<rparr> None \<and>
   Atoi (drop (length ''2022-01-01'' - 2) ''2022-01-01'') = (1, None) \<and>
   odd_day_bonus ''2022-01-01'' = 6 \<and>
   (46 :: 64 word) =
     total_bonus (fst (ParseFloat ''3.50'')) + retailer_points ''Target''
       + pair_bonus [\<lparr>ShortDescription = ''Gum'', Price = ''1.00''\<rparr>,
                     \<lparr>ShortDescription = ''Mints'', Price = ''2.50''\<rparr>]
       + description_points [\<lparr>ShortDescription = ''Gum'', Price = ''1.00''\<rparr>,
                             \<lparr>ShortDescription = ''Mints'', Price = ''2.50''\<rparr>]
       + 6 * of_nat (length [\<lparr>ShortDescription = ''Gum'', Price = ''1.00''\<rparr>,
                             \<lparr>ShortDescription = ''Mints'', Price = ''2.50''\<rparr>])
       + of_nat (length [\<lparr>ShortDescription = ''Gum'', Price = ''1.00''\<rparr>,
                         \<lparr>ShortDescription = ''Mints'', Price = ''2.50''\<rparr>])
           * afternoon_bonus ''13:01''"
proof -
  have run: "ReadReceipt None \<lparr>Retailer = ''Target'', PurchaseDate = ''2022-01-01'',
     PurchaseTime = ''13:01'',
     Items = [\<lparr>ShortDescription = ''Gum'', Price = ''1.00''\<rparr>,
              \<lparr>ShortDescription = ''Mints'', Price = ''2.50''\<rparr>],
     Total = ''3.50'', Points = 0\<rparr>
   = Return \<lparr>Retailer = ''Target'', PurchaseDate = ''2022-01-01'',
     PurchaseTime = ''13:01'',
     Items = [\<lparr>ShortDescription = ''Gum'', Price = ''1.00''\<rparr>,
              \<lparr>ShortDescription = ''Mints'', Price = ''2.50''\<rparr>],
     Total = ''3.50'', Points = 46\<rparr> None"
    by (simp add: receipt_eval cong: let_weak_cong)
  have day: "Atoi (drop (length ''2022-01-01'' - 2) ''2022-01-01'') = (1, None)"
    by (simp add: parse_eval)
  from odd_day_rule_contribution [OF run, of 1] day
  show ?thesis using run by simp
qed


text \<open>
  Claim C7 as stated fails for a negative odd integer. The date \<^verbatim>\<open>2022-01-01-1\<close> passes the
  date check, its last two bytes parse as \<open>-1\<close>, which is odd, and Go's \<^verbatim>\<open>-1 % 2\<close> is \<open>-1\<close>,
  not 1: the rule adds nothing, and the 25 points of the receipt are those of the other
  rules.
\<close>

theorem negative_odd_day_earns_nothing:
  "Atoi (drop (length ''2022-01-01-1'' - 2) ''2022-01-01-1'') = (- 1, None) \<and>
   odd (- 1 :: int) \<and>
   odd_day_bonus ''2022-01-01-1'' = 0 \<and>
   ReadReceipt None \<lparr>Retailer = '''', PurchaseDate = ''2022-01-01-1'',
     PurchaseTime = ''13:01'', Items = [\<lparr>ShortDescription = ''ab'', Price = ''1.25''\<rparr>],
     Total = ''1.25'', Points = 0\<rparr>
   = Return \<lparr>Retailer = '''', PurchaseDate = ''2022-01-01-1'',
     PurchaseTime = ''13:01'', Items = [\<lparr>ShortDescription = ''ab'', Price = ''1.25''\<rparr>],
     Total = ''1.25'', Points = 25\<rparr> None \<and>
   total_bonus (fst (ParseFloat ''1.25'')) + retailer_points ''''
     + pair_bonus [\<lparr>ShortDescription = ''ab'', Price = ''1.25''\<rparr>]
     + description_points [\<lparr>ShortDescription = ''ab'', Price = ''1.25''\<rparr>]
     + of_nat (length [\<lparr>ShortDescription = ''ab'', Price = ''1.25''\<rparr>])
         * afternoon_bonus ''13:01'' = (25 :: 64 word)"
  by (simp add: receipt_eval retailer_points_def description_points_def cong: let_weak_cong)

section \<open>Validation\<close>

text \<open>
  The error that \<open>ReadReceipt\<close> returns is the decoding error, whatever the checks found:
  when decoding succeeded it returns no error. The remainder that the total check tests
  is the total that the item loop leaves.
\<close>

lemma ReadReceipt_returns_decoding_error:
  assumes "ReadReceipt err receipt = Return scored err'"
  shows "err' = err"
  using assms
  by (auto simp: ReadReceipt_def Let_def split: option.splits prod.splits)

lemma item_loop_remainder:
  assumes "item_loop receipt (Items receipt) (fst (ParseFloat (Total receipt)), points) = Some (t, p)"
  shows "t = remainder receipt"
  using assms by (simp add: item_loop_result remainder_def split: if_splits)

text \<open>
  A receipt whose date and time are well formed is accepted, whatever its total: the item
  loop completes, since both strings have two bytes or more.
\<close>

lemma well_formed_receipt_accepted:
  assumes "MatchString isdate (PurchaseDate receipt)"
    and "MatchString istime (PurchaseTime receipt)"
  shows "\<exists>scored. ReadReceipt None receipt = Return scored None"
proof -
  have "\<not> length (PurchaseDate receipt) < 2"
    using assms(1) short_string_fails_checks [of "PurchaseDate receipt"] by blast
  moreover have "\<not> length (PurchaseTime receipt) < 2"
    using assms(2) short_string_fails_checks [of "PurchaseTime receipt"] by blast
  ultimately have "loop_completes receipt"
    by (simp add: loop_completes_def not_less)
  then show ?thesis by (simp add: ReadReceipt_result)
qed

text \<open>
  Claim C3. The \<^verbatim>\<open>Retailer\<close> field is tagged \<^verbatim>\<open>binding:"required"\<close>, but the receipt is decoded
  with \<^verbatim>\<open>json.NewDecoder\<close>, which does not read the tag, and \<open>ReadReceipt\<close> has no check of
  its own: a receipt with an empty retailer is accepted, with no error.
\<close>

theorem empty_retailer_accepted:
  "ReadReceipt None \<lparr>Retailer = '''', PurchaseDate = ''2022-01-02'', PurchaseTime = ''13:01'',
     Items = [], Total = ''0'', Points = 0\<rparr>
   = Return \<lparr>Retailer = '''', PurchaseDate = ''2022-01-02'', PurchaseTime = ''13:01'',
     Items = [], Total = ''0'', Points = 75\<rparr> None"
  by (simp add: receipt_eval cong: let_weak_cong)

text \<open>
  Claim C6. A mismatch of the total should be reported whenever the remainder is not
  zero. Lines 125 to 128 join the error of the total check into the variable \<^verbatim>\<open>err\<close> of
  the \<^verbatim>\<open>else\<close> block, and line 134 returns the other \<^verbatim>\<open>err\<close>, which is \<^verbatim>\<open>nil\<close>: the receipt
  below, with total 2.00 and one item at 1.00, has remainder 1 and is returned scored,
  with no error.
\<close>

theorem total_mismatch_not_reported:
  "\<not> is_zero (remainder \<lparr>Retailer = ''Target'', PurchaseDate = ''2022-01-02'',
     PurchaseTime = ''13:01'', Items = [\<lparr>ShortDescription = ''Gum'', Price = ''1.00''\<rparr>],
     Total = ''2.00'', Points = 0\<rparr>) \<and>
   ReadReceipt None \<lparr>Retailer = ''Target'', PurchaseDate = ''2022-01-02'',
     PurchaseTime = ''13:01'', Items = [\<lparr>ShortDescription = ''Gum'', Price = ''1.00''\<rparr>],
     Total = ''2.00'', Points = 0\<rparr>
   = Return \<lparr>Retailer = ''Target'', PurchaseDate = ''2022-01-02'',
     PurchaseTime = ''13:01'', Items = [\<lparr>ShortDescription = ''Gum'', Price = ''1.00''\<rparr>],
     Total = ''2.00'', Points = 83\<rparr> None"
  by (simp add: receipt_eval remainder_def cong: let_weak_cong)

text \<open>
  Claim C8. All failing checks should be collected and reported together, and a receipt
  that fails a check should be rejected. On the receipt below the date check, the time
  check and the total check all fail; their errors are joined in the variable \<^verbatim>\<open>err\<close> of
  the \<^verbatim>\<open>else\<close> block, and \<open>ReadReceipt\<close> returns the other \<^verbatim>\<open>err\<close>: the receipt is returned
  scored, with no error. The retailer check of the specification is not made at all.
\<close>

theorem failed_checks_not_reported:
  "\<not> MatchString isdate ''01/02/2022'' \<and> \<not> MatchString istime ''1:01pm'' \<and>
   \<not> is_zero (remainder \<lparr>Retailer = ''Target'', PurchaseDate = ''01/02/2022'',
     PurchaseTime = ''1:01pm'', Items = [\<lparr>ShortDescription = ''Gum'', Price = ''1.00''\<rparr>],
     Total = ''5.00'', Points = 0\<rparr>) \<and>
   ReadReceipt None \<lparr>Retailer = ''Target'', PurchaseDate = ''01/02/2022'',
     PurchaseTime = ''1:01pm'', Items = [\<lparr>ShortDescription = ''Gum'', Price = ''1.00''\<rparr>],
     Total = ''5.00'', Points = 0\<rparr>
   = Return \<lparr>Retailer = ''Target'', PurchaseDate = ''01/02/2022'',
     PurchaseTime = ''1:01pm'', Items = [\<lparr>ShortDescription = ''Gum'', Price = ''1.00''\<rparr>],
     Total = ''5.00'', Points = 83\<rparr> None"
  by (simp add: receipt_eval remainder_def cong: let_weak_cong)

section \<open>The sign of the points\<close>























text \<open>
  The bounds are needed as well. Two items at \<open>9e18\<close> contribute \<open>9 \<sqdot> 10\<^sup>1\<^sup>8\<close> points each;
  their sum wraps around in the 64-bit \<^verbatim>\<open>int\<close>, and the receipt, whose total matches, is
  accepted with negative points.
\<close>

lemma large_prices_wrap_around:
  "ReadReceipt None \<lparr>Retailer = ''Target'', PurchaseDate = ''2022-01-02'',
     PurchaseTime = ''13:01'',
     Items = [\<lparr>ShortDescription = '''', Price = ''9e18''\<rparr>,
              \<lparr>ShortDescription = '''', Price = ''9e18''\<rparr>],
     Total = ''18e18'', Points = 0\<rparr>
   = Return \<lparr>Retailer = ''Target'', PurchaseDate = ''2022-01-02'',
     PurchaseTime = ''13:01'',
     Items = [\<lparr>ShortDescription = '''', Price = ''9e18''\<rparr>,
              \<lparr>ShortDescription = '''', Price = ''9e18''\<rparr>],
     Total = ''18e18'', Points = 18000000000000000082\<rparr> None \<and>
   sint (18000000000000000082 :: 64 word) = - 446744073709551534"
  by (simp add: receipt_eval cong: let_weak_cong)

end
